theory Spec2Isabelle
  imports Complex_Main
begin

section \<open>Unrolled TITAN: the model classes of \<open>TITAN_Unrolled/model.py\<close>\<close>

text \<open>
  The embedding follows \<open>model.py\<close> class by class. Two modelling decisions hold
  throughout.

  \<^item> Scalars (\<open>alpha\<close>, the four coefficients, the theory constants) are \<open>real\<close>. In
    the source they are Python floats and one-element float32 tensors; rounding, infinities
    and NaN are not modelled, so a theorem below speaks about the arithmetic the code
    writes down, and coincides with the float computation up to rounding where no
    denominator is zero and no radicand is negative.
  \<^item> The tensors \<open>W\<close>, \<open>C\<close> and \<open>Rx\<close> are values of three types \<open>'w\<close>, \<open>'c\<close>, \<open>'r\<close>:
    the tensors of the shape of \<open>W\<close>, of \<open>C\<close> and of \<open>Rx\<close>. \<open>'w\<close> and \<open>'c\<close> are real
    vector spaces, so \<open>W + beta_w * (W - W_old)\<close> is written as it stands in the
    source; \<open>clone()\<close> is the identity on values.
\<close>

subsection \<open>Exceptions\<close>

datatype error = ValueError | ZeroDivisionError | TypeError | IndexError | RuntimeError

subsection \<open>The collaborators imported from \<open>functions\<close> and \<open>tools\<close>\<close>

text \<open>
  \<open>from functions import *\<close> and \<open>from tools import *\<close> bring in the numerical
  primitives; their files are not part of the sources, so they are parameters of every
  definition that calls them. The record also carries the three tensor methods the
  classes use: \<open>C.shape\<close>, \<open>W.view(-1)\<close> and \<open>C.view(-1)\<close>.
\<close>

record ('w, 'c, 'r) prims =
  spectral_norm_extracted :: "'r \<Rightarrow> nat \<Rightarrow> nat \<Rightarrow> real"
  lipschitz :: "'c \<Rightarrow> real \<Rightarrow> real"
  grad_H_W :: "'w \<Rightarrow> 'c \<Rightarrow> 'r \<Rightarrow> 'w"
  grad_H_C_reg :: "'w \<Rightarrow> 'c \<Rightarrow> 'r \<Rightarrow> real \<Rightarrow> 'c"
  prox_f :: "'w \<Rightarrow> real \<Rightarrow> 'w"
  prox_g :: "'c \<Rightarrow> real \<Rightarrow> real \<Rightarrow> 'c"
  shape_C :: "'c \<Rightarrow> nat list"
  view_W :: "'w \<Rightarrow> real list"
  view_C :: "'c \<Rightarrow> real list"

subsection \<open>Trainable parameters and \<open>torch.nn.Linear\<close>\<close>

text \<open>
  A parameter has its values, its \<open>requires_grad\<close> flag and its accumulated gradient
  (\<open>None\<close> when cleared). A linear layer has a weight matrix, kept as the list of its
  rows (one row per output feature), and a bias vector.
\<close>

record 'a param =
  pdata :: 'a
  requires_grad :: bool
  grad :: "'a option"

record linear =
  weight :: "real list list param"
  bias :: "real list param"

text \<open>
  \<open>fc(x)\<close> for a one-dimensional \<open>x\<close>: \<open>y\<^sub>i = row\<^sub>i \<cdot> x + b\<^sub>i\<close>. torch raises a
  RuntimeError when the length of \<open>x\<close> is not the layer's number of input features.
\<close>

definition linear_forward :: "linear \<Rightarrow> real list \<Rightarrow> error + real list" where
  "linear_forward l x =
     (if list_all (\<lambda>row. length row = length x) (pdata (weight l))
      then Inr (map2 (\<lambda>row b. sum_list (map2 (*) row x) + b)
                  (pdata (weight l)) (pdata (bias l)))
      else Inl RuntimeError)"

text \<open>
  \<open>nn.Softplus()\<close> with its defaults \<open>beta = 1\<close>, \<open>threshold = 20\<close>: the linear
  function above the threshold, \<open>log(1 + exp x)\<close> below.
\<close>

definition softplus :: "real \<Rightarrow> real" where
  "softplus x = (if x > 20 then x else ln (1 + exp x))"

subsection \<open>\<open>class FCNN_alpha\<close>\<close>

record FCNN_alpha =
  fc1 :: linear
  fc2 :: linear
  fc3 :: linear

text \<open>
  The result of \<open>forward\<close> is a tensor with \<open>output_size\<close> entries. The only
  construction site, \<open>Block.__init__\<close>, leaves \<open>output_size\<close> at its default 1, and
  every use of \<open>alpha\<close> treats it as a scalar; \<open>the_scalar\<close> reads that one entry. A
  predictor with another output size is outside the source and is refused here.
\<close>

fun the_scalar :: "real list \<Rightarrow> error + real" where
  "the_scalar [a] = Inr a"
| "the_scalar _ = Inl RuntimeError"

definition FCNN_alpha_forward ::
  "('w, 'c, 'r) prims \<Rightarrow> FCNN_alpha \<Rightarrow> 'w \<Rightarrow> 'c \<Rightarrow> error + real" where
  "FCNN_alpha_forward P M W C =
     (let x = view_W P W @ view_C P C in
      case linear_forward (fc1 M) x of
        Inl e \<Rightarrow> Inl e
      | Inr x1 \<Rightarrow>
          (case linear_forward (fc2 M) (map softplus x1) of
             Inl e \<Rightarrow> Inl e
           | Inr x2 \<Rightarrow>
               (case linear_forward (fc3 M) (map softplus x2) of
                  Inl e \<Rightarrow> Inl e
                | Inr x3 \<Rightarrow> the_scalar (map softplus x3))))"

subsection \<open>\<open>class W_iter\<close>\<close>

definition W_iter_inertial_step :: "real \<Rightarrow> 'w::real_vector \<Rightarrow> 'w \<Rightarrow> 'w" where
  "W_iter_inertial_step beta_w W W_old = W + beta_w *\<^sub>R (W - W_old)"

definition W_iter_gradient_step ::
  "('w::real_vector, 'c, 'r) prims \<Rightarrow> 'r \<Rightarrow> real \<Rightarrow> 'w \<Rightarrow> 'c \<Rightarrow> 'w" where
  "W_iter_gradient_step P Rx c_w W C = W - c_w *\<^sub>R grad_H_W P W C Rx"

definition W_iter_prox_step :: "('w, 'c, 'r) prims \<Rightarrow> real \<Rightarrow> 'w \<Rightarrow> 'w" where
  "W_iter_prox_step P c_w W = prox_f P W c_w"

definition W_iter_update ::
  "('w::real_vector, 'c, 'r) prims \<Rightarrow> 'r \<Rightarrow> 'w \<Rightarrow> 'w \<Rightarrow> 'c \<Rightarrow> real \<Rightarrow> real \<Rightarrow> 'w \<times> 'w" where
  "W_iter_update P Rx W W_old C c_w beta_w =
     (let W_inertial = W_iter_inertial_step beta_w W W_old;
          W_old' = W;
          W_gradient = W_iter_gradient_step P Rx c_w W_inertial C;
          W_prox = W_iter_prox_step P c_w W_gradient
      in (W_prox, W_old'))"

text \<open>
  \<open>for _ in range(self.N_updates_W): W, W_old = self.update(...)\<close>; the first
  argument counts the iterations still to run.
\<close>

fun W_iter_loop ::
  "('w::real_vector, 'c, 'r) prims \<Rightarrow> nat \<Rightarrow> 'r \<Rightarrow> 'w \<Rightarrow> 'w \<Rightarrow> 'c \<Rightarrow> real \<Rightarrow> real \<Rightarrow> 'w" where
  "W_iter_loop P 0 Rx W W_old C c_w beta_w = W"
| "W_iter_loop P (Suc n) Rx W W_old C c_w beta_w =
     (case W_iter_update P Rx W W_old C c_w beta_w of
        (W', W_old') \<Rightarrow> W_iter_loop P n Rx W' W_old' C c_w beta_w)"

text \<open>\<open>range(n)\<close> of a Python int runs \<open>n\<close> times, and not at all when \<open>n \<le> 0\<close>.\<close>

definition W_iter_forward ::
  "('w::real_vector, 'c, 'r) prims \<Rightarrow> int \<Rightarrow> 'r \<Rightarrow> 'w \<Rightarrow> 'c \<Rightarrow> real \<Rightarrow> real \<Rightarrow> 'w" where
  "W_iter_forward P n_updates_W Rx W C c_w beta_w =
     (let W_old = W in W_iter_loop P (nat n_updates_W) Rx W W_old C c_w beta_w)"

subsection \<open>\<open>class C_iter\<close>\<close>

definition C_iter_inertial_step :: "real \<Rightarrow> 'c::real_vector \<Rightarrow> 'c \<Rightarrow> 'c" where
  "C_iter_inertial_step beta_c C C_old = C + beta_c *\<^sub>R (C - C_old)"

definition C_iter_gradient_step ::
  "('w, 'c::real_vector, 'r) prims \<Rightarrow> 'r \<Rightarrow> real \<Rightarrow> 'c \<Rightarrow> 'w \<Rightarrow> real \<Rightarrow> 'c" where
  "C_iter_gradient_step P Rx c_c C W alpha = C - c_c *\<^sub>R grad_H_C_reg P W C Rx alpha"

definition C_iter_prox_step :: "('w, 'c, 'r) prims \<Rightarrow> real \<Rightarrow> 'c \<Rightarrow> real \<Rightarrow> 'c" where
  "C_iter_prox_step P c_c C e = prox_g P C c_c e"

definition C_iter_update ::
  "('w, 'c::real_vector, 'r) prims \<Rightarrow> 'r \<Rightarrow> 'c \<Rightarrow> 'c \<Rightarrow> 'w \<Rightarrow> real \<Rightarrow> real \<Rightarrow> real \<Rightarrow> real
     \<Rightarrow> 'c \<times> 'c" where
  "C_iter_update P Rx C C_old W_updated c_c beta_c alpha e =
     (let C_inertial = C_iter_inertial_step beta_c C C_old;
          C_old' = C;
          C_gradient = C_iter_gradient_step P Rx c_c C_inertial W_updated alpha;
          C_prox = C_iter_prox_step P c_c C_gradient e
      in (C_prox, C_old'))"

text \<open>
  \<open>C_iter.forward\<close>: the \<open>return\<close> stands inside the body of the \<open>for\<close> loop. With no
  iteration to run the function falls off its end and returns Python's \<open>None\<close>; otherwise
  the first iteration returns, and the remaining \<open>n\<close> iterations never start.
\<close>

fun C_iter_loop ::
  "('w, 'c::real_vector, 'r) prims \<Rightarrow> nat \<Rightarrow> 'r \<Rightarrow> 'c \<Rightarrow> 'w \<Rightarrow> real \<Rightarrow> real \<Rightarrow> real \<Rightarrow> real
     \<Rightarrow> ('c \<times> 'c) option" where
  "C_iter_loop P 0 Rx C W_updated c_c beta_c alpha e = None"
| "C_iter_loop P (Suc n) Rx C W_updated c_c beta_c alpha e =
     (let C_old = C in
      case C_iter_update P Rx C C_old W_updated c_c beta_c alpha e of
        (C', C_old') \<Rightarrow> Some (C', C_old'))"

definition C_iter_forward ::
  "('w, 'c::real_vector, 'r) prims \<Rightarrow> int \<Rightarrow> 'r \<Rightarrow> 'c \<Rightarrow> 'w \<Rightarrow> real \<Rightarrow> real \<Rightarrow> real \<Rightarrow> real
     \<Rightarrow> ('c \<times> 'c) option" where
  "C_iter_forward P n_updates_C Rx C W_updated c_c beta_c alpha e =
     C_iter_loop P (nat n_updates_C) Rx C W_updated c_c beta_c alpha e"

subsection \<open>\<open>class Block\<close>\<close>

text \<open>
  The attributes of a Block: its predictor, the update counts held by its \<open>W_iter\<close> and
  \<open>C_iter\<close>, the five theory constants, and the \<open>training\<close> flag that \<open>eval()\<close> clears
  on the block and on every module below it.
\<close>

record block =
  NN_alpha :: FCNN_alpha
  N_updates_W :: int
  N_updates_C :: int
  gamma_c :: real
  gamma_w :: real
  eps :: real
  nu :: real
  zeta :: real
  training :: bool

text \<open>\<open>K, _, N = C.shape\<close> raises a ValueError unless the shape has three entries.\<close>

fun unpack3 :: "nat list \<Rightarrow> error + (nat \<times> nat \<times> nat)" where
  "unpack3 [a, b, c] = Inr (a, b, c)"
| "unpack3 _ = Inl ValueError"

text \<open>
  \<open>get_coefficients\<close>. \<open>self.gamma_c**2 / K**2\<close> is a division of Python numbers and
  raises ZeroDivisionError when \<open>K = 0\<close>; the other divisions are tensor divisions and
  raise nothing.
\<close>

definition get_coefficients ::
  "('w, 'c, 'r) prims \<Rightarrow> block \<Rightarrow> 'r \<Rightarrow> real \<Rightarrow> 'c \<Rightarrow> 'c
     \<Rightarrow> error + (real \<times> real \<times> real \<times> real)" where
  "get_coefficients P B Rx alpha C C_old =
     (case unpack3 (shape_C P C) of
        Inl e \<Rightarrow> Inl e
      | Inr (K, _, N) \<Rightarrow>
          (let rho_Rx = spectral_norm_extracted P Rx K N;
               l_sup = max ((gamma_w B * alpha) / (1 - gamma_w B))
                           (rho_Rx * 2 * real K * (1 + sqrt (2 / (alpha * gamma_c B))))
           in if K = 0 then Inl ZeroDivisionError
              else
                (let expr3 = (gamma_c B)\<^sup>2 / (real K)\<^sup>2;
                     expr4 = alpha * gamma_w B / ((1 + zeta B) * (1 - gamma_w B) * l_sup);
                     expr5 = rho_Rx / ((1 + zeta B) * l_sup);
                     C0 = min (min expr3 expr4) expr5;
                     L_inf = (1 + zeta B) * C0 * l_sup;
                     L_w_prev = max L_inf (lipschitz P C_old rho_Rx);
                     L_w = max L_inf (lipschitz P C rho_Rx);
                     c_w = gamma_w B / L_w;
                     beta_w = (1 - gamma_w B) * sqrt (C0 * nu B * (1 - nu B) * L_w_prev / L_w);
                     c_c = gamma_c B / alpha;
                     beta_c = sqrt (C0 * nu B * (1 - nu B))
                 in Inr (c_w, beta_w, c_c, beta_c))))"

text \<open>
  \<open>Block.forward\<close>. Unpacking the \<open>None\<close> that \<open>C_iter\<close> returns without an iteration
  raises a TypeError.
\<close>

definition Block_forward ::
  "('w::real_vector, 'c::real_vector, 'r) prims \<Rightarrow> block \<Rightarrow> 'r \<Rightarrow> 'w \<Rightarrow> 'c \<Rightarrow> 'c
     \<Rightarrow> error + ('w \<times> 'c \<times> 'c)" where
  "Block_forward P B Rx W C C_old =
     (case FCNN_alpha_forward P (NN_alpha B) W C of
        Inl e \<Rightarrow> Inl e
      | Inr alpha \<Rightarrow>
          (case get_coefficients P B Rx alpha C C_old of
             Inl e \<Rightarrow> Inl e
           | Inr (c_w, beta_w, c_c, beta_c) \<Rightarrow>
               (let W_updated = W_iter_forward P (N_updates_W B) Rx W C c_w beta_w in
                case C_iter_forward P (N_updates_C B) Rx C W_updated c_c beta_c alpha (eps B) of
                  None \<Rightarrow> Inl TypeError
                | Some (C_updated, C_old') \<Rightarrow> Inr (W_updated, C_updated, C_old'))))"

subsection \<open>\<open>class myModel\<close>\<close>

text \<open>
  \<open>self.Layers\<close> is an \<open>nn.ModuleList\<close>, here the list of its blocks. Indexing it
  with an int follows Python: an index in \<open>[-len, len)\<close> is accepted, a negative one
  counts from the end, any other raises IndexError.
\<close>

definition module_at :: "'a list \<Rightarrow> int \<Rightarrow> error + 'a" where
  "module_at Ls i =
     (let n = int (length Ls) in
      if - n \<le> i \<and> i < n then Inr (Ls ! nat (if i < 0 then i + n else i))
      else Inl IndexError)"

text \<open>
  \<open>state_dict()\<close> of a Block: the values of the six parameters of its predictor (the
  other attributes are plain Python values, not part of it). \<open>load_state_dict\<close> copies
  such values into the parameters and touches neither flag nor gradient. All blocks of
  a model are built by one constructor call with one \<open>input_dim\<close>, so the shapes agree
  and the size check of \<open>load_state_dict\<close> cannot fail.
\<close>

type_synonym linear_state = "real list list \<times> real list"

definition linear_state_dict :: "linear \<Rightarrow> linear_state" where
  "linear_state_dict l = (pdata (weight l), pdata (bias l))"

definition state_dict :: "block \<Rightarrow> linear_state \<times> linear_state \<times> linear_state" where
  "state_dict B =
     (linear_state_dict (fc1 (NN_alpha B)),
      linear_state_dict (fc2 (NN_alpha B)),
      linear_state_dict (fc3 (NN_alpha B)))"

definition linear_load :: "linear \<Rightarrow> linear_state \<Rightarrow> linear" where
  "linear_load l s =
     l\<lparr>weight := (weight l)\<lparr>pdata := fst s\<rparr>, bias := (bias l)\<lparr>pdata := snd s\<rparr>\<rparr>"

definition load_state_dict ::
  "block \<Rightarrow> linear_state \<times> linear_state \<times> linear_state \<Rightarrow> block" where
  "load_state_dict B s =
     B\<lparr>NN_alpha :=
         \<lparr>fc1 = linear_load (fc1 (NN_alpha B)) (fst s),
          fc2 = linear_load (fc2 (NN_alpha B)) (fst (snd s)),
          fc3 = linear_load (fc3 (NN_alpha B)) (snd (snd s))\<rparr>\<rparr>"

text \<open>\<open>Layers[i].eval()\<close>, and the loop over \<open>Layers[i].parameters()\<close>.\<close>

definition block_eval :: "block \<Rightarrow> block" where
  "block_eval B = B\<lparr>training := False\<rparr>"

definition param_freeze :: "'a param \<Rightarrow> 'a param" where
  "param_freeze p = p\<lparr>requires_grad := False, grad := None\<rparr>"

definition linear_freeze :: "linear \<Rightarrow> linear" where
  "linear_freeze l = \<lparr>weight = param_freeze (weight l), bias = param_freeze (bias l)\<rparr>"

definition block_freeze :: "block \<Rightarrow> block" where
  "block_freeze B =
     B\<lparr>NN_alpha :=
         \<lparr>fc1 = linear_freeze (fc1 (NN_alpha B)),
          fc2 = linear_freeze (fc2 (NN_alpha B)),
          fc3 = linear_freeze (fc3 (NN_alpha B))\<rparr>\<rparr>"

text \<open>
  \<open>for i in range(0, block)\<close>: the indices still to visit and the layers so far. An
  exception leaves the layers as they are at that moment, so the loop returns the
  exception (if any) together with the layers.
\<close>

fun freeze_loop :: "nat list \<Rightarrow> block list \<Rightarrow> error option \<times> block list" where
  "freeze_loop [] Ls = (None, Ls)"
| "freeze_loop (i # rest) Ls =
     (case module_at Ls (int i) of
        Inl e \<Rightarrow> (Some e, Ls)
      | Inr B \<Rightarrow> freeze_loop rest (Ls[i := block_freeze (block_eval B)]))"

definition GradFalse :: "block list \<Rightarrow> int \<Rightarrow> string \<Rightarrow> error option \<times> block list" where
  "GradFalse Ls blk mode =
     (if blk \<ge> 1 then
        (if mode = ''greedy'' then
           (case module_at Ls blk of
              Inl e \<Rightarrow> (Some e, Ls)
            | Inr B_target \<Rightarrow>
                (case module_at Ls (blk - 1) of
                   Inl e \<Rightarrow> (Some e, Ls)
                 | Inr B_prev \<Rightarrow>
                     freeze_loop [0..<nat blk]
                       (Ls[nat blk := load_state_dict B_target (state_dict B_prev)])))
         else freeze_loop [0..<nat blk] Ls)
      else (None, Ls))"

text \<open>
  The loop of the \<open>'test'\<close> branch, \<open>for i in range(len(self.Layers))\<close>: each round
  takes \<open>C_old = C.clone()\<close>, calls \<open>Layers[i]\<close> and drops the \<open>C_old\<close> it returns.
\<close>

fun test_loop ::
  "('w::real_vector, 'c::real_vector, 'r) prims \<Rightarrow> block list \<Rightarrow> nat list \<Rightarrow> 'r \<Rightarrow> 'w \<Rightarrow> 'c
     \<Rightarrow> error + ('w \<times> 'c)" where
  "test_loop P Ls [] Rx W C = Inr (W, C)"
| "test_loop P Ls (i # rest) Rx W C =
     (case module_at Ls (int i) of
        Inl e \<Rightarrow> Inl e
      | Inr B \<Rightarrow>
          (let C_old = C in
           case Block_forward P B Rx W C C_old of
             Inl e \<Rightarrow> Inl e
           | Inr (W', C', C_old') \<Rightarrow> test_loop P Ls rest Rx W' C'))"

text \<open>
  \<open>myModel.forward\<close>. The \<open>if\<close>/\<open>elif\<close> has no \<open>else\<close>: with any other mode the
  function reaches \<open>return W, C\<close> with its arguments.
\<close>

definition myModel_forward ::
  "('w::real_vector, 'c::real_vector, 'r) prims \<Rightarrow> block list \<Rightarrow> 'r \<Rightarrow> 'w \<Rightarrow> 'c \<Rightarrow> string \<Rightarrow> int
     \<Rightarrow> error + ('w \<times> 'c)" where
  "myModel_forward P Ls Rx W C mode layer =
     (if mode = ''first_layer'' \<or> mode = ''greedy'' then
        (let C_old = C in
         case module_at Ls layer of
           Inl e \<Rightarrow> Inl e
         | Inr B \<Rightarrow>
             (case Block_forward P B Rx W C C_old of
                Inl e \<Rightarrow> Inl e
              | Inr (W', C', C_old') \<Rightarrow> Inr (W', C')))
      else if mode = ''test'' then test_loop P Ls [0..<length Ls] Rx W C
      else Inr (W, C))"

subsection \<open>The trainable state of a block\<close>

text \<open>
  A frozen parameter does not require a gradient and holds none; a frozen block has all
  six parameters frozen and is in evaluation mode. The gradient state of a block is what
  \<open>GradFalse\<close> can change besides the values: the flag and the gradient of each
  parameter, and the \<open>training\<close> flag.
\<close>

definition param_frozen :: "'a param \<Rightarrow> bool" where
  "param_frozen p = (\<not> requires_grad p \<and> grad p = None)"

definition linear_frozen :: "linear \<Rightarrow> bool" where
  "linear_frozen l = (param_frozen (weight l) \<and> param_frozen (bias l))"

definition block_frozen :: "block \<Rightarrow> bool" where
  "block_frozen B =
     (linear_frozen (fc1 (NN_alpha B)) \<and> linear_frozen (fc2 (NN_alpha B)) \<and>
      linear_frozen (fc3 (NN_alpha B)) \<and> \<not> training B)"

definition param_grad_state :: "'a param \<Rightarrow> bool \<times> 'a option" where
  "param_grad_state p = (requires_grad p, grad p)"

type_synonym linear_grads =
  "(bool \<times> real list list option) \<times> (bool \<times> real list option)"

definition linear_grad_state :: "linear \<Rightarrow> linear_grads" where
  "linear_grad_state l = (param_grad_state (weight l), param_grad_state (bias l))"

definition block_grad_state ::
  "block \<Rightarrow> linear_grads \<times> linear_grads \<times> linear_grads \<times> bool" where
  "block_grad_state B =
     (linear_grad_state (fc1 (NN_alpha B)), linear_grad_state (fc2 (NN_alpha B)),
      linear_grad_state (fc3 (NN_alpha B)), training B)"

section \<open>The specification's formulations\<close>

text \<open>
  Section 4.2 of the specification, line by line: \<open>l_sup\<close>, \<open>C0\<close> (a minimum of three
  terms), \<open>L_inf\<close>, the surrogate \<open>max(L_inf, lipschitz(\<cdot>, rho_Rx))\<close> and the four
  coefficients.
\<close>

definition spec_l_sup :: "block \<Rightarrow> real \<Rightarrow> real \<Rightarrow> nat \<Rightarrow> real" where
  "spec_l_sup B alpha rho_Rx K =
     max (gamma_w B * alpha / (1 - gamma_w B))
         (rho_Rx * (2 * real K) * (1 + sqrt (2 / (alpha * gamma_c B))))"

definition spec_C0 :: "block \<Rightarrow> real \<Rightarrow> real \<Rightarrow> nat \<Rightarrow> real" where
  "spec_C0 B alpha rho_Rx K =
     Min {(gamma_c B)\<^sup>2 / (real K)\<^sup>2,
          alpha * gamma_w B / ((1 + zeta B) * (1 - gamma_w B) * spec_l_sup B alpha rho_Rx K),
          rho_Rx / ((1 + zeta B) * spec_l_sup B alpha rho_Rx K)}"

definition spec_L_inf :: "block \<Rightarrow> real \<Rightarrow> real \<Rightarrow> nat \<Rightarrow> real" where
  "spec_L_inf B alpha rho_Rx K =
     (1 + zeta B) * spec_C0 B alpha rho_Rx K * spec_l_sup B alpha rho_Rx K"

definition spec_L_w :: "('w, 'c, 'r) prims \<Rightarrow> block \<Rightarrow> real \<Rightarrow> real \<Rightarrow> nat \<Rightarrow> 'c \<Rightarrow> real" where
  "spec_L_w P B alpha rho_Rx K C = max (spec_L_inf B alpha rho_Rx K) (lipschitz P C rho_Rx)"

definition spec_coefficients ::
  "('w, 'c, 'r) prims \<Rightarrow> block \<Rightarrow> 'r \<Rightarrow> real \<Rightarrow> 'c \<Rightarrow> 'c \<Rightarrow> nat \<Rightarrow> nat
     \<Rightarrow> real \<times> real \<times> real \<times> real" where
  "spec_coefficients P B Rx alpha C C_old K N =
     (let rho_Rx = spectral_norm_extracted P Rx K N;
          C0 = spec_C0 B alpha rho_Rx K;
          L_w_prev = spec_L_w P B alpha rho_Rx K C_old;
          L_w = spec_L_w P B alpha rho_Rx K C
      in (gamma_w B / L_w,
          (1 - gamma_w B) * sqrt (C0 * nu B * (1 - nu B) * L_w_prev / L_w),
          gamma_c B / alpha,
          sqrt (C0 * nu B * (1 - nu B))))"

text \<open>
  Section 4.3: the iterates of the W update as a two-term recurrence. Iterate \<open>k + 1\<close>
  is the proximal-gradient step at the extrapolation of iterate \<open>k\<close> against the iterate
  that entered the preceding sub-step; on the first sub-step that is the input itself.
\<close>

definition spec_W_substep ::
  "('w::real_vector, 'c, 'r) prims \<Rightarrow> 'r \<Rightarrow> 'c \<Rightarrow> real \<Rightarrow> real \<Rightarrow> 'w \<Rightarrow> 'w \<Rightarrow> 'w" where
  "spec_W_substep P Rx C c_w beta_w W_k W_old =
     prox_f P ((W_k + beta_w *\<^sub>R (W_k - W_old))
               - c_w *\<^sub>R grad_H_W P (W_k + beta_w *\<^sub>R (W_k - W_old)) C Rx) c_w"


text \<open>
  Section 8, mode consistency: the blocks applied once each in index order, every
  call given \<open>C_old = C\<close>; and the same chain written as single-block calls of the model
  in first-layer mode, one per index.
\<close>

fun spec_chain_blocks ::
  "('w::real_vector, 'c::real_vector, 'r) prims \<Rightarrow> block list \<Rightarrow> 'r \<Rightarrow> 'w \<Rightarrow> 'c
     \<Rightarrow> error + ('w \<times> 'c)" where
  "spec_chain_blocks P [] Rx W C = Inr (W, C)"
| "spec_chain_blocks P (B # Bs) Rx W C =
     (case Block_forward P B Rx W C C of
        Inl e \<Rightarrow> Inl e
      | Inr (W', C', C_old') \<Rightarrow> spec_chain_blocks P Bs Rx W' C')"

fun spec_chain_calls ::
  "('w::real_vector, 'c::real_vector, 'r) prims \<Rightarrow> block list \<Rightarrow> nat list \<Rightarrow> 'r \<Rightarrow> 'w \<Rightarrow> 'c
     \<Rightarrow> error + ('w \<times> 'c)" where
  "spec_chain_calls P Ls [] Rx W C = Inr (W, C)"
| "spec_chain_calls P Ls (i # rest) Rx W C =
     (case myModel_forward P Ls Rx W C ''first_layer'' (int i) of
        Inl e \<Rightarrow> Inl e
      | Inr (W', C') \<Rightarrow> spec_chain_calls P Ls rest Rx W' C')"

section \<open>Concrete inputs\<close>

text \<open>
  The smallest tensors: \<open>N = K = 1\<close>, so \<open>W\<close>, \<open>C\<close> and \<open>Rx\<close> have one entry each and
  are real numbers; \<open>C.shape\<close> is \<open>[1, 1, 1]\<close> and \<open>view(-1)\<close> is the one-entry list.
  The primitives are stand-ins with the signatures of section 6: the spectral norm of the
  one-entry \<open>Rx\<close> is its absolute value, and \<open>prox_g\<close> floors its argument at \<open>eps\<close>.
\<close>

definition example_prims :: "(real, real, real) prims" where
  "example_prims =
     \<lparr>spectral_norm_extracted = (\<lambda>Rx K N. \<bar>Rx\<bar>),
      lipschitz = (\<lambda>C rho_Rx. rho_Rx * \<bar>C\<bar>),
      grad_H_W = (\<lambda>W C Rx. W * C - Rx),
      grad_H_C_reg = (\<lambda>W C Rx alpha. C - W * Rx + alpha),
      prox_f = (\<lambda>W c_w. W / (1 + c_w)),
      prox_g = (\<lambda>C c_c e. max C e),
      shape_C = (\<lambda>C. [1, 1, 1]),
      view_W = (\<lambda>W. [W]),
      view_C = (\<lambda>C. [C])\<rparr>"

text \<open>
  A linear layer with every weight \<open>w\<close> and every bias \<open>b\<close>, trainable and with no
  gradient yet, and a predictor of the sizes \<open>Block.__init__\<close> gives it
  (\<open>FCNN_alpha(input_dim, 64, 32)\<close>) with zero weights: it predicts
  \<open>alpha = softplus b3\<close> for every input.
\<close>

definition const_linear :: "nat \<Rightarrow> nat \<Rightarrow> real \<Rightarrow> real \<Rightarrow> linear" where
  "const_linear n_in n_out w b =
     \<lparr>weight = \<lparr>pdata = replicate n_out (replicate n_in w), requires_grad = True, grad = None\<rparr>,
      bias = \<lparr>pdata = replicate n_out b, requires_grad = True, grad = None\<rparr>\<rparr>"

definition const_FCNN :: "nat \<Rightarrow> real \<Rightarrow> FCNN_alpha" where
  "const_FCNN input_dim b3 =
     \<lparr>fc1 = const_linear input_dim 64 0 0,
      fc2 = const_linear 64 32 0 0,
      fc3 = const_linear 32 1 0 b3\<rparr>"

text \<open>
  A block on the one-entry tensors (\<open>input_dim = 2\<close>) with the constants of the
  specification's scenario: \<open>gamma_c = 1\<close>, \<open>gamma_w = 0.99\<close>, \<open>eps = 1e-12\<close>,
  \<open>nu = 0.5\<close>, \<open>zeta = 0.1\<close>.
\<close>

definition example_block :: "real \<Rightarrow> int \<Rightarrow> int \<Rightarrow> block" where
  "example_block b3 n_W n_C =
     \<lparr>NN_alpha = const_FCNN 2 b3, N_updates_W = n_W, N_updates_C = n_C,
      gamma_c = 1, gamma_w = 99 / 100, eps = 1 / 10 ^ 12, nu = 1 / 2, zeta = 1 / 10,
      training = True\<rparr>"

section \<open>Auxiliary facts\<close>

subsection \<open>The inertial step at a fresh snapshot, and \<open>C_iter\<close>\<close>


lemma inertial_C_self: "C_iter_inertial_step beta_c C C = C"
  by (simp add: C_iter_inertial_step_def)

lemma C_iter_update_self:
  "C_iter_update P Rx C C W_updated c_c beta_c alpha e =
     (prox_g P (C - c_c *\<^sub>R grad_H_C_reg P W_updated C Rx alpha) c_c e, C)"
  by (simp add: C_iter_update_def inertial_C_self C_iter_gradient_step_def C_iter_prox_step_def)

lemma C_iter_forward_pos:
  "1 \<le> n \<Longrightarrow> C_iter_forward P n Rx C W_updated c_c beta_c alpha e =
     Some (prox_g P (C - c_c *\<^sub>R grad_H_C_reg P W_updated C Rx alpha) c_c e, C)"
proof -
  assume "1 \<le> n"
  then obtain k where k: "nat n = Suc k"
    by (cases "nat n") auto
  show ?thesis
    by (simp add: C_iter_forward_def k C_iter_update_self)
qed

lemma C_iter_forward_nonpos:
  "n \<le> 0 \<Longrightarrow> C_iter_forward P n Rx C W_updated c_c beta_c alpha e = None"
  by (simp add: C_iter_forward_def)

lemma C_iter_forward_beta_irrelevant:
  "C_iter_forward P n Rx C W_updated c_c beta_c alpha e =
   C_iter_forward P n Rx C W_updated c_c beta_c' alpha e"
proof (cases "1 \<le> n")
  case True
  then show ?thesis by (simp add: C_iter_forward_pos)
next
  case False
  then show ?thesis by (simp add: C_iter_forward_nonpos)
qed

lemma map2_replicate_zero: "sum_list (map2 (*) (replicate n (0::real)) xs) = 0"
proof (induction n arbitrary: xs)
  case 0
  then show ?case by simp
next
  case (Suc n)
  then show ?case by (cases xs) simp_all
qed

lemma const_linear_zero_forward:
  "length x = n_in \<Longrightarrow> linear_forward (const_linear n_in n_out 0 b) x = Inr (replicate n_out b)"
  by (simp add: linear_forward_def const_linear_def list_all_iff map2_replicate_zero)

lemma const_FCNN_forward:
  "length (view_W P W @ view_C P C) = d \<Longrightarrow>
   FCNN_alpha_forward P (const_FCNN d b3) W C = Inr (softplus b3)"
  by (simp add: FCNN_alpha_forward_def const_FCNN_def const_linear_zero_forward Let_def)

subsection \<open>The coefficient derivation\<close>

lemma get_coefficients_eq:
  assumes "shape_C P C = [K, K2, N]" and "K \<noteq> 0"
  shows "get_coefficients P B Rx alpha C C_old = Inr (spec_coefficients P B Rx alpha C C_old K N)"
  using assms
  by (simp add: get_coefficients_def spec_coefficients_def spec_L_w_def spec_L_inf_def
      spec_C0_def spec_l_sup_def Let_def min.assoc mult.assoc)

lemma get_coefficients_K0:
  assumes "shape_C P C = [0, K2, N]"
  shows "get_coefficients P B Rx alpha C C_old = Inl ZeroDivisionError"
  using assms by (simp add: get_coefficients_def Let_def)

lemma spec_l_sup_ge: "gamma_w B * alpha / (1 - gamma_w B) \<le> spec_l_sup B alpha rho K"
  by (simp add: spec_l_sup_def)

lemma spec_l_sup_pos:
  assumes "0 < gamma_w B" "gamma_w B < 1" "0 < alpha"
  shows "0 < spec_l_sup B alpha rho K"
proof -
  have "0 < gamma_w B * alpha / (1 - gamma_w B)"
    using assms by simp
  then show ?thesis
    using spec_l_sup_ge [of B alpha rho K] by linarith
qed

lemma spec_C0_pos:
  assumes "0 < gamma_w B" "gamma_w B < 1" "0 < alpha" "0 < gamma_c B" "0 < zeta B"
    and "0 < rho" "1 \<le> K"
  shows "0 < spec_C0 B alpha rho K"
proof -
  have l: "0 < spec_l_sup B alpha rho K"
    using assms by (simp add: spec_l_sup_pos)
  have "0 < (gamma_c B)\<^sup>2 / (real K)\<^sup>2"
    using assms by simp
  moreover have "0 < alpha * gamma_w B / ((1 + zeta B) * (1 - gamma_w B) * spec_l_sup B alpha rho K)"
    using assms l by simp
  moreover have "0 < rho / ((1 + zeta B) * spec_l_sup B alpha rho K)"
    using assms l by simp
  ultimately show ?thesis
    by (simp add: spec_C0_def)
qed

lemma spec_C0_less_1:
  assumes "0 < gamma_w B" "gamma_w B < 1" "0 < alpha" "0 < zeta B"
  shows "spec_C0 B alpha rho K < 1"
proof -
  define l where "l = spec_l_sup B alpha rho K"
  define D where "D = (1 - gamma_w B) * l"
  have l: "0 < l"
    using assms by (simp add: l_def spec_l_sup_pos)
  have D: "0 < D"
    using assms l by (simp add: D_def)
  have "gamma_w B * alpha / (1 - gamma_w B) \<le> l"
    by (simp add: l_def spec_l_sup_ge)
  then have "gamma_w B * alpha \<le> l * (1 - gamma_w B)"
    using assms by (simp add: pos_divide_le_eq)
  then have le: "alpha * gamma_w B \<le> D"
    by (simp add: D_def mult.commute)
  have "alpha * gamma_w B / ((1 + zeta B) * (1 - gamma_w B) * l) = (alpha * gamma_w B / D) / (1 + zeta B)"
    by (simp add: D_def mult.assoc)
  also have "\<dots> \<le> 1 / (1 + zeta B)"
  proof (rule divide_right_mono)
    show "alpha * gamma_w B / D \<le> 1"
      using le D by simp
    show "0 \<le> 1 + zeta B"
      using assms by simp
  qed
  also have "\<dots> < 1"
    using assms by simp
  finally have "alpha * gamma_w B / ((1 + zeta B) * (1 - gamma_w B) * l) < 1" .
  then show ?thesis
    by (simp add: spec_C0_def l_def min_less_iff_disj)
qed

lemma spec_L_inf_pos:
  assumes "0 < gamma_w B" "gamma_w B < 1" "0 < alpha" "0 < gamma_c B" "0 < zeta B"
    and "0 < rho" "1 \<le> K"
  shows "0 < spec_L_inf B alpha rho K"
  using assms by (simp add: spec_L_inf_def spec_C0_pos spec_l_sup_pos)

lemma spec_L_w_pos:
  assumes "0 < gamma_w B" "gamma_w B < 1" "0 < alpha" "0 < gamma_c B" "0 < zeta B"
    and "0 < rho" "1 \<le> K"
  shows "0 < spec_L_w P B alpha rho K C"
  using spec_L_inf_pos [OF assms] by (simp add: spec_L_w_def less_max_iff_disj)

lemma spec_L_w_mono:
  "lipschitz P C_old rho \<le> lipschitz P C rho \<Longrightarrow>
   spec_L_w P B alpha rho K C_old \<le> spec_L_w P B alpha rho K C"
  by (auto simp add: spec_L_w_def max_def)

lemma inertia_radicand:
  assumes "0 < c0" "c0 < 1" "0 < n" "n < (1::real)"
  shows "0 < c0 * n * (1 - n)" "c0 * n * (1 - n) < 1"
proof -
  show "0 < c0 * n * (1 - n)"
    using assms by simp
  have "c0 * n < 1 * 1"
    using assms by (intro mult_strict_mono) simp_all
  then have "(c0 * n) * (1 - n) < 1 * 1"
    using assms by (intro mult_strict_mono) simp_all
  then show "c0 * n * (1 - n) < 1"
    by simp
qed

lemma coefficient_ranges:
  assumes gw: "0 < gamma_w B" "gamma_w B < 1" and al: "0 < alpha" and gc: "0 < gamma_c B"
    and z: "0 < zeta B" and n: "0 < nu B" "nu B < 1" and rho: "0 < rho" and K: "1 \<le> K"
    and Lw: "L_w = spec_L_w P B alpha rho K C" and Lp: "L_w_prev = spec_L_w P B alpha rho K C_old"
    and C0: "C0 = spec_C0 B alpha rho K"
  shows "0 < gamma_w B / L_w" "gamma_w B / L_w < 1 / L_w" "0 < gamma_c B / alpha"
    "0 \<le> sqrt (C0 * nu B * (1 - nu B))" "sqrt (C0 * nu B * (1 - nu B)) < 1"
    "0 \<le> (1 - gamma_w B) * sqrt (C0 * nu B * (1 - nu B) * L_w_prev / L_w)"
    "L_w_prev \<le> L_w \<Longrightarrow> (1 - gamma_w B) * sqrt (C0 * nu B * (1 - nu B) * L_w_prev / L_w) < 1"
proof -
  have L: "0 < L_w" "0 < L_w_prev"
    unfolding Lw Lp using gw al gc z rho K by (simp_all add: spec_L_w_pos)
  have c0: "0 < C0" "C0 < 1"
    unfolding C0 using gw al gc z rho K by (simp_all add: spec_C0_pos spec_C0_less_1)
  note rad = inertia_radicand [OF c0 n]
  show "0 < gamma_w B / L_w" "0 < gamma_c B / alpha"
    using gw gc al L by simp_all
  show "gamma_w B / L_w < 1 / L_w"
    using gw L by (simp add: divide_strict_right_mono)
  show "0 \<le> sqrt (C0 * nu B * (1 - nu B))"
    using rad by simp
  show "sqrt (C0 * nu B * (1 - nu B)) < 1"
    using rad by simp
  have q: "0 \<le> C0 * nu B * (1 - nu B) * L_w_prev / L_w"
    using rad L by simp
  show "0 \<le> (1 - gamma_w B) * sqrt (C0 * nu B * (1 - nu B) * L_w_prev / L_w)"
    using gw q by simp
  show "(1 - gamma_w B) * sqrt (C0 * nu B * (1 - nu B) * L_w_prev / L_w) < 1" if le: "L_w_prev \<le> L_w"
  proof -
    have "L_w_prev / L_w \<le> 1"
      using le L by simp
    then have "(C0 * nu B * (1 - nu B)) * (L_w_prev / L_w) \<le> (C0 * nu B * (1 - nu B)) * 1"
      using rad by (intro mult_left_mono) simp_all
    then have "C0 * nu B * (1 - nu B) * L_w_prev / L_w < 1"
      using rad by simp
    then have s: "sqrt (C0 * nu B * (1 - nu B) * L_w_prev / L_w) < 1"
      by simp
    have s0: "0 \<le> sqrt (C0 * nu B * (1 - nu B) * L_w_prev / L_w)"
      using q by simp
    have "(1 - gamma_w B) * sqrt (C0 * nu B * (1 - nu B) * L_w_prev / L_w) < 1 * 1"
      using gw s s0 by (intro mult_strict_mono') simp_all
    then show ?thesis by simp
  qed
qed

lemma example_shape: "shape_C example_prims C = [1, 1, 1]"
  by (simp add: example_prims_def)

lemma example_consts:
  "gamma_c (example_block b n m) = 1" "gamma_w (example_block b n m) = 99 / 100"
  "nu (example_block b n m) = 1 / 2" "zeta (example_block b n m) = 1 / 10"
  "eps (example_block b n m) = 1 / 10 ^ 12"
  "N_updates_W (example_block b n m) = n" "N_updates_C (example_block b n m) = m"
  by (simp_all add: example_block_def)

lemma example_spectral: "spectral_norm_extracted example_prims Rx K N = \<bar>Rx\<bar>"
  by (simp add: example_prims_def)

lemma example_lipschitz: "lipschitz example_prims C rho = rho * \<bar>C\<bar>"
  by (simp add: example_prims_def)

lemma example_l_sup: "spec_l_sup (example_block b n m) 2 1 (Suc 0) = 198"
  by (simp add: spec_l_sup_def example_consts)

lemma example_C0: "spec_C0 (example_block b n m) 2 1 (Suc 0) = 5 / 1089"
  by (simp add: spec_C0_def example_l_sup example_consts)

lemma example_L_inf: "spec_L_inf (example_block b n m) 2 1 (Suc 0) = 1"
  by (simp add: spec_L_inf_def example_l_sup example_C0 example_consts)

lemma example_coefficients:
  "spec_coefficients example_prims (example_block b n m) 1 2 1 C_old (Suc 0) (Suc 0) =
     (99 / 100, 1 / 100 * sqrt (5 / 4356 * max 1 \<bar>C_old\<bar>), 1 / 2, sqrt (5 / 4356))"
  by (simp add: spec_coefficients_def spec_L_w_def example_L_inf example_C0 example_consts
      example_spectral example_lipschitz Let_def)

lemma sqrt_40000: "sqrt 40000 = 200"
  by (rule real_sqrt_unique) simp_all

subsection \<open>The W update as a recurrence\<close>

lemma W_iter_update_eq:
  "W_iter_update P Rx W W_old C c_w beta_w = (spec_W_substep P Rx C c_w beta_w W W_old, W)"
  by (simp add: W_iter_update_def W_iter_inertial_step_def W_iter_gradient_step_def
      W_iter_prox_step_def spec_W_substep_def Let_def)



lemma example_W_substep:
  "spec_W_substep example_prims Rx C c_w beta_w W_k W_old =
     ((W_k + beta_w * (W_k - W_old)) - c_w * ((W_k + beta_w * (W_k - W_old)) * C - Rx)) / (1 + c_w)"
  by (simp add: spec_W_substep_def example_prims_def)

subsection \<open>One block on the example inputs\<close>

lemma Block_forward_eq:
  assumes "FCNN_alpha_forward P (NN_alpha B) W C = Inr alpha"
    and "get_coefficients P B Rx alpha C C_old = Inr (c_w, beta_w, c_c, beta_c)"
  shows "Block_forward P B Rx W C C_old =
           (if 1 \<le> N_updates_C B
            then Inr (W_iter_forward P (N_updates_W B) Rx W C c_w beta_w,
                      prox_g P (C - c_c *\<^sub>R grad_H_C_reg P
                                  (W_iter_forward P (N_updates_W B) Rx W C c_w beta_w) C Rx alpha)
                        c_c (eps B),
                      C)
            else Inl TypeError)"
  using assms
  by (simp add: Block_forward_def Let_def C_iter_forward_pos C_iter_forward_nonpos)

lemma Block_forward_Inr_cases:
  assumes "Block_forward P B Rx W C C_old = Inr (W', C', C_old')"
  obtains alpha c_w beta_w c_c beta_c where
    "FCNN_alpha_forward P (NN_alpha B) W C = Inr alpha"
    "get_coefficients P B Rx alpha C C_old = Inr (c_w, beta_w, c_c, beta_c)"
  using assms
  by (auto simp add: Block_forward_def split: sum.splits)

lemma Block_forward_C_old:
  assumes "Block_forward P B Rx W C C_old = Inr (W', C', C_old')"
  shows "C_old' = C" and "1 \<le> N_updates_C B"
proof -
  obtain alpha c_w beta_w c_c beta_c where
    a: "FCNN_alpha_forward P (NN_alpha B) W C = Inr alpha" and
    g: "get_coefficients P B Rx alpha C C_old = Inr (c_w, beta_w, c_c, beta_c)"
    using assms by (rule Block_forward_Inr_cases)
  show "C_old' = C" "1 \<le> N_updates_C B"
    using assms unfolding Block_forward_eq [OF a g]
    by (simp_all split: if_splits)
qed

lemma Block_forward_no_C_updates:
  assumes "N_updates_C B \<le> 0"
  shows "\<exists>err. Block_forward P B Rx W C C_old = Inl err"
proof (cases "Block_forward P B Rx W C C_old")
  case (Inl a)
  then show ?thesis by simp
next
  case (Inr r)
  obtain W' C' C_old' where "r = (W', C', C_old')"
    by (cases r) auto
  with Inr have "1 \<le> N_updates_C B"
    using Block_forward_C_old(2) [of P B Rx W C C_old W' C' C_old'] by simp
  with assms show ?thesis by simp
qed

lemma sqrt_16: "sqrt 16 = 4"
  by (rule real_sqrt_unique) simp_all

lemma example_l_sup_32: "spec_l_sup (example_block b n m) 32 1 (Suc 0) = 3168"
  by (simp add: spec_l_sup_def example_consts real_sqrt_divide sqrt_16)

lemma example_C0_32: "spec_C0 (example_block b n m) 32 1 (Suc 0) = 5 / 17424"
  by (simp add: spec_C0_def example_l_sup_32 example_consts)

lemma example_L_inf_32: "spec_L_inf (example_block b n m) 32 1 (Suc 0) = 1"
  by (simp add: spec_L_inf_def example_l_sup_32 example_C0_32 example_consts)

lemma example_coefficients_32:
  "get_coefficients example_prims (example_block b n m) 1 32 1 C_old =
     Inr (99 / 100, 1 / 100 * sqrt (5 / 69696 * max 1 \<bar>C_old\<bar>), 1 / 32, sqrt (5 / 69696))"
proof -
  have "get_coefficients example_prims (example_block b n m) 1 32 1 C_old =
          Inr (spec_coefficients example_prims (example_block b n m) 1 32 1 C_old (Suc 0) (Suc 0))"
    by (rule get_coefficients_eq [where ?K2.0 = 1]) (simp_all add: example_shape)
  then show ?thesis
    by (simp add: spec_coefficients_def spec_L_w_def example_L_inf_32 example_C0_32 example_consts
        example_spectral example_lipschitz Let_def)
qed

lemma example_alpha_32:
  "FCNN_alpha_forward example_prims (NN_alpha (example_block 32 n m)) W C = Inr 32"
  by (simp add: example_block_def const_FCNN_forward example_prims_def softplus_def)

lemma example_W_one_step:
  "W_iter_forward example_prims 1 1 1 1 (99 / 100) beta_w = 100 / 199"
  by (simp add: W_iter_forward_def W_iter_update_eq example_W_substep)

lemma example_prox_g: "prox_g example_prims C c_c e = max C e"
  by (simp add: example_prims_def)

lemma example_grad_H_C_reg: "grad_H_C_reg example_prims W C Rx alpha = C - W * Rx + alpha"
  by (simp add: example_prims_def)

lemma example_Block_forward:
  "Block_forward example_prims (example_block 32 1 m) 1 1 1 C_old =
     (if 1 \<le> m then Inr (100 / 199, 1 / 10 ^ 12, 1) else Inl TypeError)"
  unfolding Block_forward_eq [OF example_alpha_32 example_coefficients_32]
  by (simp add: example_consts example_W_one_step example_prox_g example_grad_H_C_reg)

lemma example_C_iter_forward:
  "1 \<le> n \<Longrightarrow> C_iter_forward example_prims n Rx C W c_c beta_c alpha e =
     Some (max (C - c_c * (C - W * Rx + alpha)) e, C)"
  by (simp add: C_iter_forward_pos example_prox_g example_grad_H_C_reg)

subsection \<open>Indexing the layers, and the test loop\<close>

lemma module_at_nat: "i < length Ls \<Longrightarrow> module_at Ls (int i) = Inr (Ls ! i)"
  by (simp add: module_at_def)

lemma module_at_in_range:
  "0 \<le> i \<Longrightarrow> i < int (length Ls) \<Longrightarrow> module_at Ls i = Inr (Ls ! nat i)"
  by (simp add: module_at_def)

lemma module_at_negative:
  "- int (length Ls) \<le> i \<Longrightarrow> i < 0 \<Longrightarrow> module_at Ls i = module_at Ls (i + int (length Ls))"
  by (simp add: module_at_def)

lemma module_at_out_of_range:
  "i < - int (length Ls) \<or> int (length Ls) \<le> i \<Longrightarrow> module_at Ls i = Inl IndexError"
  by (auto simp add: module_at_def)

lemma test_loop_chain_blocks:
  "test_loop P Ls [k..<length Ls] Rx W C = spec_chain_blocks P (drop k Ls) Rx W C"
proof (induction "length Ls - k" arbitrary: k W C)
  case 0
  then show ?case by simp
next
  case (Suc d)
  then have k: "k < length Ls" by simp
  have idx: "[k..<length Ls] = k # [Suc k..<length Ls]"
    using k by (simp add: upt_conv_Cons)
  have drp: "drop k Ls = Ls ! k # drop (Suc k) Ls"
    using k by (simp add: Cons_nth_drop_Suc)
  have IH: "\<And>W' C'. test_loop P Ls [Suc k..<length Ls] Rx W' C' =
                spec_chain_blocks P (drop (Suc k) Ls) Rx W' C'"
    using Suc by simp
  show ?case
    unfolding idx drp
    by (simp add: module_at_nat k IH split: sum.splits prod.splits)
qed

lemma test_loop_chain_calls:
  "test_loop P Ls idxs Rx W C = spec_chain_calls P Ls idxs Rx W C"
proof (induction idxs arbitrary: W C)
  case Nil
  then show ?case by simp
next
  case (Cons i rest)
  show ?case
    by (simp add: myModel_forward_def Cons.IH split: sum.splits prod.splits)
qed

lemma example_first_layer:
  "myModel_forward example_prims [example_block 32 1 1] 1 1 1 ''first_layer'' 0 =
     Inr (100 / 199, 1 / 10 ^ 12)"
  by (simp add: myModel_forward_def module_at_def example_Block_forward)

subsection \<open>Freezing the layers\<close>

lemma state_dict_load: "state_dict (load_state_dict B s) = s"
  by (simp add: state_dict_def load_state_dict_def linear_state_dict_def linear_load_def)

lemma grad_state_load: "block_grad_state (load_state_dict B s) = block_grad_state B"
  by (simp add: block_grad_state_def load_state_dict_def linear_grad_state_def linear_load_def
      param_grad_state_def)

lemma state_dict_freeze: "state_dict (block_freeze (block_eval B)) = state_dict B"
  by (simp add: state_dict_def block_freeze_def block_eval_def linear_state_dict_def
      linear_freeze_def param_freeze_def)

lemma block_frozen_freeze: "block_frozen (block_freeze (block_eval B))"
  by (simp add: block_frozen_def block_freeze_def block_eval_def linear_frozen_def
      linear_freeze_def param_freeze_def param_frozen_def)

lemma freeze_loop_result:
  assumes "\<forall>i \<in> set idxs. i < length Ls" and "distinct idxs"
  shows "\<exists>Ls'. freeze_loop idxs Ls = (None, Ls') \<and> length Ls' = length Ls \<and>
           (\<forall>j < length Ls. Ls' ! j =
              (if j \<in> set idxs then block_freeze (block_eval (Ls ! j)) else Ls ! j))"
  using assms
proof (induction idxs arbitrary: Ls)
  case Nil
  then show ?case by simp
next
  case (Cons i rest)
  define Ls1 where "Ls1 = Ls[i := block_freeze (block_eval (Ls ! i))]"
  have i: "i < length Ls" and ni: "i \<notin> set rest"
    using Cons.prems by simp_all
  have step: "freeze_loop (i # rest) Ls = freeze_loop rest Ls1"
    using i by (simp add: module_at_nat Ls1_def)
  have "\<forall>k \<in> set rest. k < length Ls1" and "distinct rest"
    using Cons.prems by (simp_all add: Ls1_def)
  from Cons.IH [OF this] obtain Ls' where
    r: "freeze_loop rest Ls1 = (None, Ls')" and l: "length Ls' = length Ls1" and
    e: "\<forall>j < length Ls1. Ls' ! j =
          (if j \<in> set rest then block_freeze (block_eval (Ls1 ! j)) else Ls1 ! j)"
    by blast
  have "\<forall>j < length Ls. Ls' ! j =
          (if j \<in> set (i # rest) then block_freeze (block_eval (Ls ! j)) else Ls ! j)"
  proof (intro allI impI)
    fix j assume j: "j < length Ls"
    show "Ls' ! j = (if j \<in> set (i # rest) then block_freeze (block_eval (Ls ! j)) else Ls ! j)"
    proof (cases "j = i")
      case True
      then show ?thesis using e j ni by (simp add: Ls1_def)
    next
      case False
      then show ?thesis using e j by (simp add: Ls1_def)
    qed
  qed
  then show ?case
    using step r l by (simp add: Ls1_def)
qed

lemma freeze_loop_below:
  assumes "n \<le> length Ls"
  shows "\<exists>Ls'. freeze_loop [0..<n] Ls = (None, Ls') \<and> length Ls' = length Ls \<and>
           (\<forall>j < n. Ls' ! j = block_freeze (block_eval (Ls ! j))) \<and>
           (\<forall>j. n \<le> j \<and> j < length Ls \<longrightarrow> Ls' ! j = Ls ! j)"
proof -
  have "\<forall>i \<in> set [0..<n]. i < length Ls" and "distinct [0..<n]"
    using assms by simp_all
  from freeze_loop_result [OF this] obtain Ls' where
    r: "freeze_loop [0..<n] Ls = (None, Ls')" and l: "length Ls' = length Ls" and
    e: "\<forall>j < length Ls. Ls' ! j =
          (if j \<in> set [0..<n] then block_freeze (block_eval (Ls ! j)) else Ls ! j)"
    by blast
  show ?thesis
    using r l e assms by auto
qed

lemma example_load:
  "load_state_dict (example_block b n m) (state_dict (example_block b' n' m')) = example_block b' n m"
  by (simp add: load_state_dict_def state_dict_def linear_state_dict_def linear_load_def
      example_block_def const_FCNN_def const_linear_def)

lemma example_grad_state:
  "block_grad_state (example_block b n m) = block_grad_state (example_block b' n' m')"
  by (simp add: block_grad_state_def linear_grad_state_def param_grad_state_def
      example_block_def const_FCNN_def const_linear_def)

lemma freeze_loop_append:
  "freeze_loop (xs @ ys) Ls =
     (case freeze_loop xs Ls of
        (None, Ls1) \<Rightarrow> freeze_loop ys Ls1
      | (Some e, Ls1) \<Rightarrow> (Some e, Ls1))"
  by (induction xs arbitrary: Ls) (simp_all split: sum.splits)

lemma freeze_loop_all:
  "freeze_loop [0..<length Ls] Ls = (None, map (\<lambda>B. block_freeze (block_eval B)) Ls)"
proof -
  obtain Ls' where
    r: "freeze_loop [0..<length Ls] Ls = (None, Ls')" and l: "length Ls' = length Ls" and
    lo: "\<forall>j < length Ls. Ls' ! j = block_freeze (block_eval (Ls ! j))"
    using freeze_loop_below [of "length Ls" Ls] by auto
  have "Ls' = map (\<lambda>B. block_freeze (block_eval B)) Ls"
    using l lo by (intro nth_equalityI) simp_all
  with r show ?thesis by simp
qed

lemma freeze_loop_beyond:
  assumes "length Ls < n"
  shows "freeze_loop [0..<n] Ls = (Some IndexError, map (\<lambda>B. block_freeze (block_eval B)) Ls)"
proof -
  have "[0..<n] = [0..<length Ls] @ [length Ls..<n]"
    using assms upt_add_eq_append [of 0 "length Ls" "n - length Ls"] by simp
  then have split: "[0..<n] = [0..<length Ls] @ (length Ls # [Suc (length Ls)..<n])"
    using assms by (simp add: upt_conv_Cons)
  have out: "module_at (map (\<lambda>B. block_freeze (block_eval B)) Ls) (int (length Ls)) = Inl IndexError"
    by (simp add: module_at_def)
  show ?thesis
    unfolding split freeze_loop_append freeze_loop_all
    by (simp add: out)
qed

lemma GradFalse_in_range:
  assumes "1 \<le> blk" and "blk < int (length Ls)"
  shows "\<exists>Ls'. GradFalse Ls blk mode = (None, Ls') \<and> length Ls' = length Ls
           \<and> (mode = ''greedy'' \<longrightarrow> state_dict (Ls' ! nat blk) = state_dict (Ls ! nat (blk - 1)))
           \<and> (mode \<noteq> ''greedy'' \<longrightarrow> Ls' ! nat blk = Ls ! nat blk)
           \<and> (\<forall>i < nat blk. block_frozen (Ls' ! i) \<and> state_dict (Ls' ! i) = state_dict (Ls ! i))
           \<and> (\<forall>i. nat blk < i \<and> i < length Ls \<longrightarrow> Ls' ! i = Ls ! i)
           \<and> block_grad_state (Ls' ! nat blk) = block_grad_state (Ls ! nat blk)"
proof -
  define b where "b = nat blk"
  have b: "1 \<le> b" "b < length Ls" "blk = int b" "nat (blk - 1) = b - 1"
    using assms by (simp_all add: b_def)
  define Ls1 where
    "Ls1 = (if mode = ''greedy''
            then Ls[b := load_state_dict (Ls ! b) (state_dict (Ls ! (b - 1)))] else Ls)"
  have len1: "length Ls1 = length Ls"
    by (simp add: Ls1_def)
  have m1: "module_at Ls blk = Inr (Ls ! b)"
    using b by (simp add: module_at_nat)
  have m2: "module_at Ls (blk - 1) = Inr (Ls ! (b - 1))"
    using b module_at_nat [of "b - 1" Ls] by (simp add: of_nat_diff)
  have G: "GradFalse Ls blk mode = freeze_loop [0..<b] Ls1"
    using assms(1) m1 m2 by (simp add: GradFalse_def Ls1_def b_def [symmetric] b(4))
  have "b \<le> length Ls1"
    using b len1 by simp
  from freeze_loop_below [OF this] obtain Ls' where
    r: "freeze_loop [0..<b] Ls1 = (None, Ls')" and l: "length Ls' = length Ls1" and
    lo: "\<forall>j < b. Ls' ! j = block_freeze (block_eval (Ls1 ! j))" and
    hi: "\<forall>j. b \<le> j \<and> j < length Ls1 \<longrightarrow> Ls' ! j = Ls1 ! j"
    by blast
  have at_b: "Ls' ! b = Ls1 ! b"
    using hi b len1 by simp
  have below: "\<And>j. j < b \<Longrightarrow> Ls1 ! j = Ls ! j"
    by (simp add: Ls1_def)
  have above: "\<And>j. b < j \<Longrightarrow> Ls1 ! j = Ls ! j"
    by (simp add: Ls1_def)
  have c1: "mode = ''greedy'' \<longrightarrow> state_dict (Ls' ! b) = state_dict (Ls ! (b - 1))"
    using at_b b by (simp add: Ls1_def state_dict_load)
  have c2: "mode \<noteq> ''greedy'' \<longrightarrow> Ls' ! b = Ls ! b"
    using at_b by (simp add: Ls1_def)
  have c3: "\<forall>i < b. block_frozen (Ls' ! i) \<and> state_dict (Ls' ! i) = state_dict (Ls ! i)"
    using lo below by (simp add: block_frozen_freeze state_dict_freeze)
  have c4: "\<forall>i. b < i \<and> i < length Ls \<longrightarrow> Ls' ! i = Ls ! i"
    using hi above len1 by simp
  have c5: "block_grad_state (Ls' ! b) = block_grad_state (Ls ! b)"
    using at_b b by (simp add: Ls1_def grad_state_load)
  show ?thesis
    unfolding G r b_def [symmetric] b(4)
    using l len1 c1 c2 c3 c4 c5 by simp
qed

lemma GradFalse_greedy_beyond:
  assumes "1 \<le> blk" and "int (length Ls) \<le> blk"
  shows "GradFalse Ls blk ''greedy'' = (Some IndexError, Ls)"
  using assms by (simp add: GradFalse_def module_at_out_of_range)

lemma GradFalse_other_beyond:
  assumes "1 \<le> blk" and "int (length Ls) \<le> blk" and "mode \<noteq> ''greedy''"
  shows "GradFalse Ls blk mode =
           (if blk = int (length Ls) then None else Some IndexError,
            map (\<lambda>B. block_freeze (block_eval B)) Ls)"
proof (cases "blk = int (length Ls)")
  case True
  then show ?thesis
    using assms by (simp add: GradFalse_def freeze_loop_all)
next
  case False
  then have "length Ls < nat blk"
    using assms by simp
  then show ?thesis
    using assms False by (simp add: GradFalse_def freeze_loop_beyond)
qed

lemma example_not_frozen: "\<not> block_frozen (example_block b n m)"
  by (simp add: block_frozen_def example_block_def)

lemma example_GradFalse_greedy_1:
  "GradFalse [example_block 32 1 1, example_block 50 1 1, example_block 7 1 1] 1 ''greedy'' =
     (None, [block_freeze (block_eval (example_block 32 1 1)), example_block 32 1 1,
             example_block 7 1 1])"
  by (simp add: GradFalse_def module_at_def example_load)

lemma example_GradFalse_other_2:
  "GradFalse [example_block 32 1 1, example_block 50 1 1] 2 ''last_layers_lpp'' =
     (None, [block_freeze (block_eval (example_block 32 1 1)),
             block_freeze (block_eval (example_block 50 1 1))])"
  by (simp add: GradFalse_other_beyond)

section \<open>The claims\<close>

text \<open>
  C1. For a \<open>C\<close> of shape \<open>[K, K, N]\<close>, \<open>get_coefficients\<close> returns exactly the
  four scalars of the specification's derivation (\<open>spec_coefficients\<close>, built from
  \<open>spec_l_sup\<close>, \<open>spec_C0\<close>, \<open>spec_L_inf\<close> and \<open>spec_L_w\<close>). It returns them
  whenever it returns: for \<open>K = 0\<close> the Python division \<open>gamma_c**2 / K**2\<close> raises
  instead.
\<close>

theorem C1_get_coefficients_exact:
  assumes "shape_C P C = [K, K2, N]"
  shows "get_coefficients P B Rx alpha C C_old =
           (if K = 0 then Inl ZeroDivisionError
            else Inr (spec_coefficients P B Rx alpha C C_old K N))"
  using assms by (simp add: get_coefficients_eq get_coefficients_K0)

theorem C1_witness:
  "shape_C example_prims 1 = [1, 1, 1] \<and>
   get_coefficients example_prims (example_block 21 2 1) 1 2 1 1 =
     Inr (99 / 100, 1 / 100 * sqrt (5 / 4356), 1 / 2, sqrt (5 / 4356))"
  using C1_get_coefficients_exact [of example_prims 1 1 1 1 "example_block 21 2 1" 1 2 1]
  by (simp add: example_shape example_coefficients)

text \<open>
  C2 (as amended). For \<open>alpha > 0\<close>, \<open>K \<ge> 1\<close>, a positive spectral norm and constants
  with \<open>0 < gamma_w < 1\<close>, \<open>gamma_c > 0\<close>, \<open>0 < nu < 1\<close>, \<open>zeta > 0\<close>,
  \<open>get_coefficients\<close> returns \<open>c_w > 0\<close> and \<open>c_c > 0\<close>, with \<open>c_w\<close> below the
  reciprocal of the computed Lipschitz surrogate \<open>L_w\<close>, \<open>beta_c\<close> in \<open>[0, 1)\<close> and
  \<open>beta_w \<ge> 0\<close>; \<open>beta_w < 1\<close> holds when the Lipschitz bound of \<open>C_old\<close> does not
  exceed that of \<open>C\<close>, as it does in every call the model makes (\<open>C_old\<close> is a clone of
  \<open>C\<close> there).
\<close>

theorem C2_coefficient_ranges:
  assumes "shape_C P C = [K, K2, N]" and "1 \<le> K" and "0 < alpha"
    and "rho_Rx = spectral_norm_extracted P Rx K N" and "0 < rho_Rx"
    and "0 < gamma_w B" and "gamma_w B < 1" and "0 < gamma_c B"
    and "0 < nu B" and "nu B < 1" and "0 < zeta B"
  shows "\<exists>c_w beta_w c_c beta_c.
           get_coefficients P B Rx alpha C C_old = Inr (c_w, beta_w, c_c, beta_c) \<and>
           0 < c_w \<and> c_w < 1 / spec_L_w P B alpha rho_Rx K C \<and> 0 < c_c \<and>
           0 \<le> beta_w \<and> (lipschitz P C_old rho_Rx \<le> lipschitz P C rho_Rx \<longrightarrow> beta_w < 1) \<and>
           0 \<le> beta_c \<and> beta_c < 1"
proof -
  have eq: "get_coefficients P B Rx alpha C C_old = Inr (spec_coefficients P B Rx alpha C C_old K N)"
    using assms(1,2) by (intro get_coefficients_eq) simp_all
  define L_w where "L_w = spec_L_w P B alpha rho_Rx K C"
  define L_w_prev where "L_w_prev = spec_L_w P B alpha rho_Rx K C_old"
  define C0 where "C0 = spec_C0 B alpha rho_Rx K"
  note r = coefficient_ranges [OF assms(6,7) assms(3) assms(8) assms(11) assms(9,10) assms(5) assms(2)
      L_w_def L_w_prev_def C0_def]
  have mono: "lipschitz P C_old rho_Rx \<le> lipschitz P C rho_Rx \<Longrightarrow> L_w_prev \<le> L_w"
    unfolding L_w_def L_w_prev_def by (rule spec_L_w_mono)
  have "spec_coefficients P B Rx alpha C C_old K N =
          (gamma_w B / L_w, (1 - gamma_w B) * sqrt (C0 * nu B * (1 - nu B) * L_w_prev / L_w),
           gamma_c B / alpha, sqrt (C0 * nu B * (1 - nu B)))"
    by (simp add: spec_coefficients_def Let_def assms(4) L_w_def L_w_prev_def C0_def)
  then show ?thesis
    unfolding eq using r mono L_w_def by auto
qed

theorem C2_witness:
  "shape_C example_prims 1 = [1, 1, 1] \<and> (1::nat) \<le> 1 \<and> (0::real) < 2 \<and>
   0 < spectral_norm_extracted example_prims 1 1 1 \<and>
   0 < gamma_w (example_block 21 2 1) \<and> gamma_w (example_block 21 2 1) < 1 \<and>
   0 < gamma_c (example_block 21 2 1) \<and>
   0 < nu (example_block 21 2 1) \<and> nu (example_block 21 2 1) < 1 \<and>
   0 < zeta (example_block 21 2 1) \<and>
   lipschitz example_prims 1 1 \<le> lipschitz example_prims 1 1 \<and>
   (\<exists>c_w beta_w c_c beta_c.
      get_coefficients example_prims (example_block 21 2 1) 1 2 1 1 = Inr (c_w, beta_w, c_c, beta_c) \<and>
      0 < c_w \<and> c_w < 1 / spec_L_w example_prims (example_block 21 2 1) 2 1 1 1 \<and> 0 < c_c \<and>
      0 \<le> beta_w \<and> beta_w < 1 \<and> 0 \<le> beta_c \<and> beta_c < 1)"
  using C2_coefficient_ranges [of example_prims 1 1 1 1 2 1 1 "example_block 21 2 1" 1]
  by (simp add: example_shape example_consts example_spectral)

text \<open>
  The specification's wording promises \<open>beta_w < 1\<close> for every \<open>C_old\<close>. With the
  constants of the specification's scenario, \<open>alpha = 2\<close>, and a \<open>C_old\<close> whose
  Lipschitz bound is 34848000 times that of \<open>C\<close>, the ratio \<open>L_w_prev / L_w\<close> under the
  square root gives \<open>beta_w = 2\<close>.
\<close>

theorem C2_counterexample:
  "shape_C example_prims 1 = [1, 1, 1] \<and>
   spectral_norm_extracted example_prims 1 1 1 = 1 \<and>
   lipschitz example_prims 1 1 = 1 \<and>
   lipschitz example_prims 34848000 1 = 34848000 \<and>
   gamma_w (example_block 21 2 1) = 99 / 100 \<and> gamma_c (example_block 21 2 1) = 1 \<and>
   nu (example_block 21 2 1) = 1 / 2 \<and> zeta (example_block 21 2 1) = 1 / 10 \<and>
   get_coefficients example_prims (example_block 21 2 1) 1 2 1 34848000 =
     Inr (99 / 100, 2, 1 / 2, sqrt (5 / 4356))"
proof -
  have "get_coefficients example_prims (example_block 21 2 1) 1 2 1 34848000 =
          Inr (spec_coefficients example_prims (example_block 21 2 1) 1 2 1 34848000 1 1)"
    by (rule get_coefficients_eq [where ?K2.0 = 1]) (simp_all add: example_shape)
  then show ?thesis
    by (simp add: example_coefficients example_shape example_spectral example_lipschitz
        example_consts sqrt_40000)
qed

text \<open>
  C3. With a configured count \<open>N_updates_C \<ge> 1\<close>, \<open>C_iter.forward\<close> performs exactly
  one sub-step: the inertial extrapolation \<open>V = C + beta_c * (C - C_old)\<close> at the fresh
  snapshot \<open>C_old = C\<close>, the gradient step \<open>V - c_c * grad_H_C_reg(W, V, Rx, alpha)\<close>,
  then \<open>prox_g(\<cdot>, c_c, eps)\<close>. It returns the pair of that updated \<open>C\<close> and the clone
  of its input \<open>C\<close>, and the result is that of the count 1, however large the count is.
\<close>

theorem C3_C_iter_single_substep:
  assumes "1 \<le> n"
  shows "C_iter_forward P n Rx C W_updated c_c beta_c alpha e =
           Some (prox_g P
                   ((C + beta_c *\<^sub>R (C - C))
                    - c_c *\<^sub>R grad_H_C_reg P W_updated (C + beta_c *\<^sub>R (C - C)) Rx alpha) c_c e,
                 C)
         \<and> C_iter_forward P n Rx C W_updated c_c beta_c alpha e =
             Some (prox_g P (C - c_c *\<^sub>R grad_H_C_reg P W_updated C Rx alpha) c_c e, C)
         \<and> C_iter_forward P n Rx C W_updated c_c beta_c alpha e =
             C_iter_forward P 1 Rx C W_updated c_c beta_c alpha e"
  using assms by (simp add: C_iter_forward_pos)

text \<open>
  A count of 5 on the one-entry tensors, once with the gradient step ending above the
  floor of the stand-in \<open>prox_g\<close> (\<open>1 - (1 - 4 + 2) / 2 = 3/2\<close>), once ending below it.
\<close>

theorem C3_witness:
  "(1::int) \<le> 5 \<and>
   C_iter_forward example_prims 5 1 1 4 (1 / 2) (1 / 3) 2 (1 / 4) = Some (3 / 2, 1) \<and>
   C_iter_forward example_prims 1 1 1 4 (1 / 2) (1 / 3) 2 (1 / 4) = Some (3 / 2, 1) \<and>
   C_iter_forward example_prims 5 1 1 1 (1 / 2) (1 / 3) 2 (1 / 4) = Some (1 / 4, 1)"
proof -
  have h: "(1::int) \<le> 5" by simp
  have a: "C_iter_forward example_prims 5 1 1 4 (1 / 2) (1 / 3) 2 (1 / 4) = Some (3 / 2, 1)"
    using C3_C_iter_single_substep [OF h, of example_prims 1 1 4 "1 / 2" "1 / 3" 2 "1 / 4"]
    by (simp add: example_prox_g example_grad_H_C_reg)
  have b: "C_iter_forward example_prims 1 1 1 4 (1 / 2) (1 / 3) 2 (1 / 4) = Some (3 / 2, 1)"
    by (simp add: example_C_iter_forward)
  have c: "C_iter_forward example_prims 5 1 1 1 (1 / 2) (1 / 3) 2 (1 / 4) = Some (1 / 4, 1)"
    by (simp add: example_C_iter_forward)
  show ?thesis
    using h a b c by simp
qed



text \<open>
  C9. In \<open>C_iter.forward\<close> the inertial extrapolation is the identity: \<open>C_old\<close> is a
  clone of the current \<open>C\<close>, so \<open>C + beta_c * (C - C_old) = C\<close>; the value of \<open>beta_c\<close>
  never affects the output, which is the plain proximal-gradient step whenever there is
  one; and the \<open>C_old\<close> a Block returns is the \<open>C\<close> it was called with, not the
  \<open>C_old\<close> it was given.
\<close>

theorem C9_C_inertia_vanishes:
  "C_iter_inertial_step beta_c C C = C
   \<and> C_iter_forward P n Rx C W_updated c_c beta_c alpha e =
       C_iter_forward P n Rx C W_updated c_c beta_c' alpha e
   \<and> (1 \<le> n \<longrightarrow>
        C_iter_forward P n Rx C W_updated c_c beta_c alpha e =
          Some (prox_g P (C - c_c *\<^sub>R grad_H_C_reg P W_updated C Rx alpha) c_c e, C))
   \<and> (Block_forward P B Rx W C C_old = Inr (W', C', C_old') \<longrightarrow> C_old' = C)"
  using C_iter_forward_beta_irrelevant [of P n Rx C W_updated c_c beta_c alpha e beta_c']
    Block_forward_C_old(1) [of P B Rx W C C_old W' C' C_old']
  by (simp add: inertial_C_self C_iter_forward_pos)

theorem C9_witness:
  "C_iter_inertial_step (1 / 3) (1::real) 1 = 1
   \<and> C_iter_forward example_prims 1 1 1 1 (1 / 2) (1 / 3) 2 (1 / 4) =
       C_iter_forward example_prims 1 1 1 1 (1 / 2) 7 2 (1 / 4)
   \<and> (1::int) \<le> 1
   \<and> C_iter_forward example_prims 1 1 1 1 (1 / 2) (1 / 3) 2 (1 / 4) = Some (1 / 4, 1)
   \<and> Block_forward example_prims (example_block 32 1 1) 1 1 1 5 = Inr (100 / 199, 1 / 10 ^ 12, 1)"
  using C9_C_inertia_vanishes [of "1 / 3" 1 example_prims 1 1 1 "1 / 2" 2 "1 / 4" 7
      "example_block 32 1 1" 1 5 "100 / 199" "1 / 10 ^ 12" 1]
  by (auto simp add: example_Block_forward example_prox_g example_grad_H_C_reg)

text \<open>
  C10. A Block with \<open>N_updates_C = 0\<close>: \<open>C_iter.forward\<close> runs no iteration and
  returns \<open>None\<close>, and \<open>Block.forward\<close> fails (with the TypeError of the unpacking,
  once the predictor and the coefficients have been computed). Hence every successful
  \<open>Block.forward\<close> has \<open>N_updates_C \<ge> 1\<close>.
\<close>

theorem C10_no_C_updates:
  "(N_updates_C B = 0 \<longrightarrow>
      C_iter_forward P (N_updates_C B) Rx C W_updated c_c beta_c alpha e = None
      \<and> (\<exists>err. Block_forward P B Rx W C C_old = Inl err)
      \<and> (FCNN_alpha_forward P (NN_alpha B) W C = Inr alpha
           \<and> get_coefficients P B Rx alpha C C_old = Inr (c_w, beta_w, c_c, beta_c)
         \<longrightarrow> Block_forward P B Rx W C C_old = Inl TypeError))
   \<and> (Block_forward P B Rx W C C_old = Inr (W', C', C_old') \<longrightarrow> 1 \<le> N_updates_C B)"
proof (intro conjI impI)
  assume z: "N_updates_C B = 0"
  show "C_iter_forward P (N_updates_C B) Rx C W_updated c_c beta_c alpha e = None"
    using z by (simp add: C_iter_forward_nonpos)
  show "\<exists>err. Block_forward P B Rx W C C_old = Inl err"
    using z by (intro Block_forward_no_C_updates) simp
next
  assume z: "N_updates_C B = 0"
    and "FCNN_alpha_forward P (NN_alpha B) W C = Inr alpha
         \<and> get_coefficients P B Rx alpha C C_old = Inr (c_w, beta_w, c_c, beta_c)"
  then show "Block_forward P B Rx W C C_old = Inl TypeError"
    by (simp add: Block_forward_eq)
next
  assume "Block_forward P B Rx W C C_old = Inr (W', C', C_old')"
  then show "1 \<le> N_updates_C B"
    by (rule Block_forward_C_old(2))
qed

theorem C10_witness:
  "N_updates_C (example_block 32 1 0) = 0
   \<and> C_iter_forward example_prims (N_updates_C (example_block 32 1 0)) 1 1 (100 / 199) (1 / 32)
        (sqrt (5 / 69696)) 32 (1 / 10 ^ 12) = None
   \<and> FCNN_alpha_forward example_prims (NN_alpha (example_block 32 1 0)) 1 1 = Inr 32
   \<and> get_coefficients example_prims (example_block 32 1 0) 1 32 1 1 =
        Inr (99 / 100, 1 / 100 * sqrt (5 / 69696), 1 / 32, sqrt (5 / 69696))
   \<and> Block_forward example_prims (example_block 32 1 0) 1 1 1 1 = Inl TypeError
   \<and> Block_forward example_prims (example_block 32 1 1) 1 1 1 1 = Inr (100 / 199, 1 / 10 ^ 12, 1)
   \<and> 1 \<le> N_updates_C (example_block 32 1 1)"
  using C10_no_C_updates [of "example_block 32 1 0" example_prims 1 1 "100 / 199" "1 / 32"
      "sqrt (5 / 69696)" 32 "1 / 10 ^ 12" 1 1 "99 / 100" "1 / 100 * sqrt (5 / 69696)"]
    C10_no_C_updates [of "example_block 32 1 1" example_prims 1 1 "100 / 199" "1 / 32"
      "sqrt (5 / 69696)" 32 "1 / 10 ^ 12" 1 1 "99 / 100" "1 / 100 * sqrt (5 / 69696)"
      "100 / 199" "1 / 10 ^ 12" 1]
  by (simp add: example_consts example_alpha_32 example_coefficients_32 example_Block_forward)

text \<open>
  C8. For every list of blocks and every input, \<open>forward\<close> in mode \<open>'test'\<close> returns
  what applying the blocks once each in index order returns, each call given a fresh
  \<open>C_old = C\<close> and the \<open>C_old\<close> it returns dropped (\<open>spec_chain_blocks\<close>); and that is
  the chain of single-block calls in first-layer mode, one per index
  (\<open>spec_chain_calls\<close>). An exception of a block ends both in the same way.
\<close>

theorem C8_test_mode_is_chain:
  "myModel_forward P Ls Rx W C ''test'' layer = spec_chain_blocks P Ls Rx W C
   \<and> myModel_forward P Ls Rx W C ''test'' layer = spec_chain_calls P Ls [0..<length Ls] Rx W C"
  using test_loop_chain_blocks [of P Ls 0 Rx W C]
  by (simp add: myModel_forward_def test_loop_chain_calls)

text \<open>
  C7 (as amended). A mode other than \<open>'first_layer'\<close>, \<open>'greedy'\<close> and \<open>'test'\<close>
  raises nothing: \<open>forward\<close> returns its \<open>(W, C)\<close> unchanged. In the modes
  \<open>'first_layer'\<close> and \<open>'greedy'\<close> a layer index outside \<open>[-len, len)\<close> raises Python's
  IndexError, and an index in \<open>[-len, 0)\<close> selects the layer counted from the end; in
  mode \<open>'test'\<close> the layer index is not read at all.
\<close>

theorem C7_mode_and_layer_misuse:
  "(mode \<noteq> ''first_layer'' \<and> mode \<noteq> ''greedy'' \<and> mode \<noteq> ''test'' \<longrightarrow>
      myModel_forward P Ls Rx W C mode layer = Inr (W, C))
   \<and> ((mode = ''first_layer'' \<or> mode = ''greedy'')
        \<and> (layer < - int (length Ls) \<or> int (length Ls) \<le> layer) \<longrightarrow>
      myModel_forward P Ls Rx W C mode layer = Inl IndexError)
   \<and> ((mode = ''first_layer'' \<or> mode = ''greedy'') \<and> - int (length Ls) \<le> layer \<and> layer < 0 \<longrightarrow>
      myModel_forward P Ls Rx W C mode layer =
        myModel_forward P Ls Rx W C mode (layer + int (length Ls)))
   \<and> myModel_forward P Ls Rx W C ''test'' layer = myModel_forward P Ls Rx W C ''test'' layer'"
proof (intro conjI impI)
  assume "mode \<noteq> ''first_layer'' \<and> mode \<noteq> ''greedy'' \<and> mode \<noteq> ''test''"
  then show "myModel_forward P Ls Rx W C mode layer = Inr (W, C)"
    by (simp add: myModel_forward_def)
next
  assume "(mode = ''first_layer'' \<or> mode = ''greedy'')
        \<and> (layer < - int (length Ls) \<or> int (length Ls) \<le> layer)"
  then show "myModel_forward P Ls Rx W C mode layer = Inl IndexError"
    using module_at_out_of_range [of layer Ls] by (auto simp add: myModel_forward_def)
next
  assume "(mode = ''first_layer'' \<or> mode = ''greedy'') \<and> - int (length Ls) \<le> layer \<and> layer < 0"
  then show "myModel_forward P Ls Rx W C mode layer =
        myModel_forward P Ls Rx W C mode (layer + int (length Ls))"
    using module_at_negative [of Ls layer] by (auto simp add: myModel_forward_def)
next
  show "myModel_forward P Ls Rx W C ''test'' layer = myModel_forward P Ls Rx W C ''test'' layer'"
    by (simp add: myModel_forward_def)
qed

text \<open>
  The specification's wording has an unrecognised mode fail with a configuration error.
  With the mode \<open>'train'\<close> the call succeeds and hands back the input.
\<close>

theorem C7_counterexample:
  "myModel_forward example_prims [example_block 32 1 1] 1 1 1 ''train'' 0 = Inr (1, 1)"
  by (simp add: myModel_forward_def)

theorem C7_witness:
  "myModel_forward example_prims [example_block 32 1 1] 1 1 1 ''train'' 0 = Inr (1, 1)
   \<and> myModel_forward example_prims [example_block 32 1 1] 1 1 1 ''greedy'' 1 = Inl IndexError
   \<and> myModel_forward example_prims [example_block 32 1 1] 1 1 1 ''first_layer'' (- 1) =
       Inr (100 / 199, 1 / 10 ^ 12)
   \<and> myModel_forward example_prims [example_block 32 1 1] 1 1 1 ''test'' 0 =
       myModel_forward example_prims [example_block 32 1 1] 1 1 1 ''test'' 7"
  using C7_mode_and_layer_misuse [where mode = "''train''" and P = example_prims
      and Ls = "[example_block 32 1 1]" and Rx = 1 and W = 1 and C = 1 and layer = 0 and layer' = 7]
    C7_mode_and_layer_misuse [where mode = "''greedy''" and P = example_prims
      and Ls = "[example_block 32 1 1]" and Rx = 1 and W = 1 and C = 1 and layer = 1 and layer' = 7]
    C7_mode_and_layer_misuse [where mode = "''first_layer''" and P = example_prims
      and Ls = "[example_block 32 1 1]" and Rx = 1 and W = 1 and C = 1 and layer = "- 1"
      and layer' = 7]
  by (simp add: example_first_layer)

text \<open>
  C5 (as amended). In the modes \<open>'first_layer'\<close> and \<open>'greedy'\<close>, with a layer argument
  \<open>0 \<le> layer < len\<close>, \<open>forward\<close> runs exactly one block, the one at the 0-based
  position \<open>layer\<close> itself, on \<open>(W, C)\<close> with the fresh snapshot \<open>C_old = C\<close>, and
  returns the \<open>(W, C)\<close> of that block (or the block's exception).
\<close>

theorem C5_single_layer_modes:
  assumes "mode = ''first_layer'' \<or> mode = ''greedy''"
    and "0 \<le> layer" and "layer < int (length Ls)"
  shows "myModel_forward P Ls Rx W C mode layer =
           (case Block_forward P (Ls ! nat layer) Rx W C C of
              Inl e \<Rightarrow> Inl e
            | Inr (W', C', C_old') \<Rightarrow> Inr (W', C'))"
  using assms by (auto simp add: myModel_forward_def module_at_in_range)

theorem C5_witness:
  "(''first_layer'' = ''first_layer'' \<or> ''first_layer'' = ''greedy'') \<and> (0::int) \<le> 0
   \<and> (0::int) < int (length [example_block 32 1 1])
   \<and> Block_forward example_prims ([example_block 32 1 1] ! nat 0) 1 1 1 1 =
        Inr (100 / 199, 1 / 10 ^ 12, 1)
   \<and> myModel_forward example_prims [example_block 32 1 1] 1 1 1 ''first_layer'' 0 =
        Inr (100 / 199, 1 / 10 ^ 12)"
  using C5_single_layer_modes [where mode = "''first_layer''" and layer = 0
      and Ls = "[example_block 32 1 1]" and P = example_prims and Rx = 1 and W = 1 and C = 1]
  by (simp add: example_Block_forward)

text \<open>
  The specification's wording reads the layer argument as a 1-based number and runs the
  block at position \<open>layer - 1\<close>. On a model of one layer, the layer argument 1 does not
  run the block at position 0 (which returns a result on this input): the code indexes
  \<open>Layers[1]\<close> and raises IndexError.
\<close>

theorem C5_counterexample:
  "myModel_forward example_prims [example_block 32 1 1] 1 1 1 ''first_layer'' 1 = Inl IndexError
   \<and> Block_forward example_prims ([example_block 32 1 1] ! nat (1 - 1)) 1 1 1 1 =
        Inr (100 / 199, 1 / 10 ^ 12, 1)"
  by (simp add: myModel_forward_def module_at_def example_Block_forward)

text \<open>
  C6 (as amended). \<open>GradFalse(block, mode)\<close> with \<open>block \<ge> 1\<close>. When \<open>block\<close> names
  a layer of the model (\<open>block < len\<close>): in mode \<open>'greedy'\<close> the parameter values of
  layer \<open>block\<close> become those of layer \<open>block - 1\<close> (in any other mode layer \<open>block\<close>
  is untouched); every layer below \<open>block\<close> is frozen (no parameter requires a gradient
  or holds one, evaluation mode) with its parameter values unchanged; every layer above
  \<open>block\<close> is unchanged; and the gradient state of layer \<open>block\<close> is what it was, so a
  trainable layer stays trainable. When \<open>block \<ge> len\<close>: in mode \<open>'greedy'\<close> the call
  raises IndexError at \<open>self.Layers[block]\<close> and changes nothing; in any other mode it
  freezes every layer, and then returns if \<open>block = len\<close> and raises IndexError if
  \<open>block > len\<close>.
\<close>

theorem C6_GradFalse_effect:
  assumes "1 \<le> blk"
  shows "(blk < int (length Ls) \<longrightarrow>
           (\<exists>Ls'. GradFalse Ls blk mode = (None, Ls') \<and> length Ls' = length Ls
              \<and> (mode = ''greedy'' \<longrightarrow>
                   state_dict (Ls' ! nat blk) = state_dict (Ls ! nat (blk - 1)))
              \<and> (mode \<noteq> ''greedy'' \<longrightarrow> Ls' ! nat blk = Ls ! nat blk)
              \<and> (\<forall>i < nat blk. block_frozen (Ls' ! i) \<and> state_dict (Ls' ! i) = state_dict (Ls ! i))
              \<and> (\<forall>i. nat blk < i \<and> i < length Ls \<longrightarrow> Ls' ! i = Ls ! i)
              \<and> block_grad_state (Ls' ! nat blk) = block_grad_state (Ls ! nat blk)))
         \<and> (int (length Ls) \<le> blk \<and> mode = ''greedy'' \<longrightarrow>
              GradFalse Ls blk mode = (Some IndexError, Ls))
         \<and> (int (length Ls) \<le> blk \<and> mode \<noteq> ''greedy'' \<longrightarrow>
              GradFalse Ls blk mode =
                (if blk = int (length Ls) then None else Some IndexError,
                 map (\<lambda>B. block_freeze (block_eval B)) Ls))"
proof (intro conjI impI)
  assume "blk < int (length Ls)"
  then show "\<exists>Ls'. GradFalse Ls blk mode = (None, Ls') \<and> length Ls' = length Ls
              \<and> (mode = ''greedy'' \<longrightarrow>
                   state_dict (Ls' ! nat blk) = state_dict (Ls ! nat (blk - 1)))
              \<and> (mode \<noteq> ''greedy'' \<longrightarrow> Ls' ! nat blk = Ls ! nat blk)
              \<and> (\<forall>i < nat blk. block_frozen (Ls' ! i) \<and> state_dict (Ls' ! i) = state_dict (Ls ! i))
              \<and> (\<forall>i. nat blk < i \<and> i < length Ls \<longrightarrow> Ls' ! i = Ls ! i)
              \<and> block_grad_state (Ls' ! nat blk) = block_grad_state (Ls ! nat blk)"
    by (rule GradFalse_in_range [OF assms])
next
  assume "int (length Ls) \<le> blk \<and> mode = ''greedy''"
  then show "GradFalse Ls blk mode = (Some IndexError, Ls)"
    using GradFalse_greedy_beyond [OF assms, of Ls] by simp
next
  assume "int (length Ls) \<le> blk \<and> mode \<noteq> ''greedy''"
  then show "GradFalse Ls blk mode =
                (if blk = int (length Ls) then None else Some IndexError,
                 map (\<lambda>B. block_freeze (block_eval B)) Ls)"
    using GradFalse_other_beyond [OF assms, of Ls mode] by simp
qed

theorem C6_witness:
  "(1::int) \<le> 1
   \<and> (1::int) < int (length [example_block 32 1 1, example_block 50 1 1, example_block 7 1 1])
   \<and> GradFalse [example_block 32 1 1, example_block 50 1 1, example_block 7 1 1] 1 ''greedy'' =
       (None, [block_freeze (block_eval (example_block 32 1 1)), example_block 32 1 1,
               example_block 7 1 1])
   \<and> block_frozen (block_freeze (block_eval (example_block 32 1 1)))
   \<and> state_dict (block_freeze (block_eval (example_block 32 1 1))) =
       state_dict (example_block 32 1 1)
   \<and> block_grad_state (example_block 32 1 1) = block_grad_state (example_block 50 1 1)
   \<and> (1::int) \<le> 2 \<and> int (length [example_block 32 1 1, example_block 50 1 1]) \<le> 2
   \<and> GradFalse [example_block 32 1 1, example_block 50 1 1] 2 ''greedy'' =
       (Some IndexError, [example_block 32 1 1, example_block 50 1 1])
   \<and> GradFalse [example_block 32 1 1, example_block 50 1 1] 2 ''last_layers_lpp'' =
       (None, [block_freeze (block_eval (example_block 32 1 1)),
               block_freeze (block_eval (example_block 50 1 1))])"
proof -
  have h2: "(1::int) \<le> 2"
    by simp
  have g: "GradFalse [example_block 32 1 1, example_block 50 1 1] 2 ''greedy'' =
             (Some IndexError, [example_block 32 1 1, example_block 50 1 1])"
    using C6_GradFalse_effect [OF h2, where mode = "''greedy''"
        and Ls = "[example_block 32 1 1, example_block 50 1 1]"]
    by simp
  show ?thesis
    using g
    by (simp add: example_GradFalse_greedy_1 example_GradFalse_other_2 block_frozen_freeze
        state_dict_freeze example_grad_state [of 32 1 1 50 1 1])
qed

text \<open>
  The specification's wording covers every call with \<open>block \<ge> 1\<close>. On a model of two
  layers the call \<open>GradFalse(2, 'greedy')\<close> raises IndexError before the loop: no layer
  below \<open>block\<close> is frozen.
\<close>

theorem C6_counterexample:
  "(1::int) \<le> 2
   \<and> GradFalse [example_block 32 1 1, example_block 50 1 1] 2 ''greedy'' =
       (Some IndexError, [example_block 32 1 1, example_block 50 1 1])
   \<and> \<not> block_frozen (example_block 32 1 1) \<and> \<not> block_frozen (example_block 50 1 1)"
  by (simp add: GradFalse_def module_at_def example_not_frozen)

end
